theory Spec2Isabelle
  imports Main "HOL-Library.Word" "HOL-Library.DAList"
begin

section \<open>The signing proxy of main.go\<close>

text \<open>
  The repository is one file, main.go: the closure \<open>director\<close> built by
  \<open>NewSigningProxy\<close> (lines 50-121) and the start-up checks of \<open>main\<close>
  (lines 169-209). Both are embedded below, statement by statement. The reading of flags,
  environment and configuration file (lines 151-166) enters as the decoded
  configuration and the error of \<open>viper.Unmarshal\<close>; the transport settings of
  lines 123-147 are not modelled.

  main.go calls into libraries whose code is not part of the repository. They appear
  here in two ways.
  \<^item> Plain data constructors and accessors are written out as their packages document
    them: \<open>ioutil.ReadAll\<close>, \<open>ioutil.NopCloser\<close>, \<open>bytes.NewBuffer\<close>,
    \<open>request.New\<close> and \<open>Request.SetBufferBody\<close>.
  \<^item> The computations are parameters of the model: \<open>url.Parse\<close> (an arbitrary
    function from strings to a URL or an error) and \<open>Request.Sign\<close> with the
    handler \<open>v4.SignSDKRequest\<close> (an arbitrary function of the clock reading
    and the signing request, returning the updated signing request and the error).
    Every theorem holds for all of them unless it names an assumption.
\<close>

subsection \<open>Data\<close>

type_synonym byte = "8 word"

text \<open>A point in time as read from the clock (\<open>time.Now()\<close>).\<close>

type_synonym time = nat

text \<open>
  A Go \<open>error\<close> value; \<open>Error\<close> is its message. \<open>AwsErr code message orig\<close>
  is the SDK's \<open>awserr.New(code, message, orig)\<close>.
\<close>

datatype error = Err string | AwsErr string string error

fun Error :: "error \<Rightarrow> string" where
  "Error (Err s) = s"
| "Error (AwsErr code message orig) =
     code @ '': '' @ message @ [CHR 0x0A] @ ''caused by: '' @ Error orig"

text \<open>
  An \<open>io.ReadCloser\<close>, seen through its \<open>Read\<close> calls: the bytes they deliver
  before they stop, and how they stop (\<open>None\<close> is \<open>io.EOF\<close>, \<open>Some e\<close> any
  other error). Only readers that stop are modelled.
\<close>

datatype reader = Reader (delivered: "byte list") (ending: "error option")

text \<open>
  \<open>http.Header\<close> is a Go map from header name to the list of its values: an
  association list with unique keys, so that \<open>range\<close> has entries to visit.
\<close>

type_synonym header = "(string, string list) alist"

text \<open>\<open>url.URL\<close> (without its \<open>User\<close> and \<open>ForceQuery\<close> fields, which nothing here reads).\<close>

record url_URL =
  Scheme :: string
  Opaque :: string
  Host :: string
  Path :: string
  RawPath :: string
  RawQuery :: string
  Fragment :: string

text \<open>
  \<open>http.Request\<close>. The field \<open>Host\<close> of the request is \<open>ReqHost\<close> here
  (\<open>Host\<close> is the URL's field). In Go \<open>URL\<close> is a pointer; the one place where two
  requests share the URL object is written out in \<open>director\<close>.
\<close>

record http_Request =
  Method :: string
  URL :: url_URL
  Header :: header
  Body :: "reader option"
  ReqHost :: string

text \<open>
  \<open>credentials.Value\<close>, and \<open>*credentials.Credentials\<close> as what its \<open>Get()\<close>
  returns while the request is handled: the credential snapshot or an error.
\<close>

record credentials_Value =
  AccessKeyID :: string
  SecretAccessKey :: string
  SessionToken :: string

datatype Credentials = Credentials (Get: "error + credentials_Value")

record aws_Config =
  Config_Credentials :: Credentials
  Config_Region :: string

record metadata_ClientInfo =
  ServiceName :: string
  Endpoint :: string
  SigningName :: string
  SigningRegion :: string

record request_Operation =
  Name :: string
  HTTPMethod :: string
  HTTPPath :: string

text \<open>
  The SDK's \<open>request.Request\<close>, with the fields that lines 77-88 of main.go list
  as read by \<open>Sign\<close>. \<open>SignBody\<close> holds the bytes of the field \<open>Body\<close> (a
  seekable reader over a byte slice), \<open>ReqError\<close> is the field \<open>Error\<close>.
\<close>

record request_Request =
  Config :: aws_Config
  ClientInfo :: metadata_ClientInfo
  Operation :: request_Operation
  HTTPRequest :: http_Request
  SignBody :: "byte list"
  Time :: time
  ExpireTime :: nat
  ReqError :: "error option"

text \<open>
  The library computations that the model is parametric in: \<open>url.Parse\<close>, and
  \<open>Request.Sign\<close> running the handler list that holds \<open>v4.SignSDKRequest\<close>
  (lines 72-73), given the clock reading at that moment.
\<close>

type_synonym url_Parse = "string \<Rightarrow> error + url_URL"

type_synonym signer = "time \<Rightarrow> request_Request \<Rightarrow> request_Request \<times> error option"

subsection \<open>Library constructors\<close>

text \<open>
  \<open>ioutil.ReadAll\<close> reads until an error or EOF and returns the data it read; EOF
  is not reported as an error.
\<close>

definition ReadAll :: "reader \<Rightarrow> byte list \<times> error option" where
  "ReadAll r = (delivered r, ending r)"

text \<open>\<open>ioutil.NopCloser(bytes.NewBuffer(buf))\<close>: a reader that delivers \<open>buf\<close> and then EOF.\<close>

definition NewBuffer :: "byte list \<Rightarrow> reader" where
  "NewBuffer buf = Reader buf None"

definition NopCloser :: "reader \<Rightarrow> reader" where
  "NopCloser r = r"

definition SetBufferBody :: "byte list \<Rightarrow> request_Request \<Rightarrow> request_Request" where
  "SetBufferBody buf r = r\<lparr>SignBody := buf\<rparr>"

text \<open>\<open>&url.URL{}\<close>\<close>

definition zero_URL :: url_URL where
  "zero_URL = \<lparr>Scheme = [], Opaque = [], Host = [], Path = [], RawPath = [],
     RawQuery = [], Fragment = []\<rparr>"

text \<open>
  \<open>request.New(cfg, clientInfo, handlers, nil, operation, nil, nil)\<close>: the method
  defaults to POST, the HTTP request is a fresh one (no headers, no body) whose URL is
  parsed from endpoint and path, a parse failure is kept in \<open>Error\<close>, the time is the
  clock reading, and the body is set to the empty buffer.
\<close>

definition New ::
  "url_Parse \<Rightarrow> aws_Config \<Rightarrow> metadata_ClientInfo \<Rightarrow> request_Operation \<Rightarrow> time
     \<Rightarrow> request_Request" where
  "New parse cfg clientInfo operation now =
     (let method = (if HTTPMethod operation = [] then ''POST'' else HTTPMethod operation);
          parsed = parse (Endpoint clientInfo @ HTTPPath operation);
          httpReq = \<lparr>Method = method,
                     URL = (case parsed of Inl e \<Rightarrow> zero_URL | Inr u \<Rightarrow> u),
                     Header = DAList.empty, Body = None, ReqHost = []\<rparr>;
          r = \<lparr>Config = cfg, ClientInfo = clientInfo, Operation = operation,
               HTTPRequest = httpReq, SignBody = [], Time = now, ExpireTime = 0,
               ReqError = (case parsed of
                             Inl e \<Rightarrow> Some (AwsErr ''InvalidEndpointURL'' ''invalid endpoint uri'' e)
                           | Inr u \<Rightarrow> None)\<rparr>
      in SetBufferBody [] r)"

subsection \<open>The director (main.go, lines 50-121)\<close>

text \<open>Lines 52-54: rewrite the request to the target.\<close>

definition director_rewrite :: "url_URL \<Rightarrow> http_Request \<Rightarrow> http_Request" where
  "director_rewrite target req =
     req\<lparr>URL := (URL req)\<lparr>Scheme := Scheme target, Host := Host target\<rparr>,
         ReqHost := Host target\<rparr>"

text \<open>Lines 60-77: the signing request.\<close>

definition director_awsReq ::
  "url_Parse \<Rightarrow> Credentials \<Rightarrow> string \<Rightarrow> time \<Rightarrow> http_Request \<Rightarrow> request_Request" where
  "director_awsReq parse creds region now req =
     (let config = \<lparr>Config_Credentials = creds, Config_Region = region\<rparr>;
          clientInfo = \<lparr>ServiceName = ''es'', Endpoint = [], SigningName = [],
                        SigningRegion = []\<rparr>;
          operation = \<lparr>Name = [], HTTPMethod = Method req, HTTPPath = Path (URL req)\<rparr>
      in New parse config clientInfo operation now)"

text \<open>
  Lines 94-102: buffer the body. The result is the request, the signing request and
  the lines written to the log.
\<close>

definition director_buffer ::
  "http_Request \<Rightarrow> request_Request \<Rightarrow> http_Request \<times> request_Request \<times> string list" where
  "director_buffer req awsReq =
     (case Body req of
        None \<Rightarrow> (req, awsReq, [])
      | Some body \<Rightarrow>
          (let (buf, err) = ReadAll body;
               logged = (case err of
                           None \<Rightarrow> []
                         | Some e \<Rightarrow> [''error reading request body: '' @ Error e @ [CHR 0x0A]])
           in (req\<lparr>Body := Some (NopCloser (NewBuffer buf))\<rparr>, SetBufferBody buf awsReq, logged)))"

text \<open>
  Lines 50-106: everything before \<open>awsReq.Sign()\<close>. The result is the state at line
  113, when \<open>Sign\<close> is called: the request, the signing request and the log.
\<close>

definition director_presign ::
  "url_Parse \<Rightarrow> url_URL \<Rightarrow> Credentials \<Rightarrow> string \<Rightarrow> time \<Rightarrow> http_Request
     \<Rightarrow> http_Request \<times> request_Request \<times> string list" where
  "director_presign parse target creds region now req =
     (let req1 = director_rewrite target req;
          awsReq = director_awsReq parse creds region now req1;
          (req2, awsReq2, logged) = director_buffer req1 awsReq;
          awsReq3 = awsReq2\<lparr>HTTPRequest := (HTTPRequest awsReq2)\<lparr>URL := URL req2\<rparr>\<rparr>
      in (req2, awsReq3, logged))"

text \<open>Lines 118-120: \<open>for k, v := range signed { h[k] = v }\<close>.\<close>

fun merge_entries :: "(string \<times> string list) list \<Rightarrow> header \<Rightarrow> header" where
  "merge_entries [] h = h"
| "merge_entries ((k, v) # kvs) h = merge_entries kvs (DAList.update k v h)"

definition director_merge :: "header \<Rightarrow> header \<Rightarrow> header" where
  "director_merge hs h = merge_entries (DAList.impl_of hs) h"

text \<open>
  The director. \<open>tNew\<close> is the clock reading inside \<open>request.New\<close>, \<open>tSign\<close> the
  one when \<open>Sign\<close> runs. Line 106 makes the signing request's URL the very object
  that \<open>req.URL\<close> points to, so what \<open>Sign\<close> leaves in it is the request's URL
  afterwards. The result is the request as the proxy forwards it, and the log.
\<close>

definition director ::
  "url_Parse \<Rightarrow> signer \<Rightarrow> url_URL \<Rightarrow> Credentials \<Rightarrow> string \<Rightarrow> time \<Rightarrow> time \<Rightarrow> http_Request
     \<Rightarrow> http_Request \<times> string list" where
  "director parse Sign target creds region tNew tSign req =
     (let (req2, awsReq3, logged) = director_presign parse target creds region tNew req;
          (awsReq4, err) = Sign tSign awsReq3;
          logged2 = logged @ (case err of
                                None \<Rightarrow> []
                              | Some e \<Rightarrow> [''error signing: '' @ Error e @ [CHR 0x0A]]);
          req3 = req2\<lparr>URL := URL (HTTPRequest awsReq4)\<rparr>
      in (req3\<lparr>Header := director_merge (Header (HTTPRequest awsReq4)) (Header req3)\<rparr>,
          logged2))"

text \<open>
  The signing request as it is when line 113 calls \<open>Sign\<close> on it, and the request
  at that moment.
\<close>

definition signing_request ::
  "url_Parse \<Rightarrow> url_URL \<Rightarrow> Credentials \<Rightarrow> string \<Rightarrow> time \<Rightarrow> http_Request \<Rightarrow> request_Request" where
  "signing_request parse target creds region tNew req =
     fst (snd (director_presign parse target creds region tNew req))"

definition request_at_sign ::
  "url_Parse \<Rightarrow> url_URL \<Rightarrow> Credentials \<Rightarrow> string \<Rightarrow> time \<Rightarrow> http_Request \<Rightarrow> http_Request" where
  "request_at_sign parse target creds region tNew req =
     fst (director_presign parse target creds region tNew req)"

subsection \<open>Start-up (main.go, lines 150-210)\<close>









subsection \<open>A concrete scenario\<close>

text \<open>
  The values below are test data for closed instances of the theorems: the requests
  \<open>GET /_search?q=test\<close> without a body and \<open>POST\<close> with the body \<open>{}\<close>, the
  target \<open>https://search.example.com\<close>, and stand-ins for the two library
  computations. \<open>example_parse\<close> is \<open>url.Parse\<close> on the three strings the examples
  parse. \<open>example_Sign\<close> returns a pending error or the credential error as it finds
  them; otherwise it stamps an \<open>Authorization\<close> and an \<open>X-Amz-Date\<close> header and
  re-encodes \<open>+\<close> as \<open>%20\<close> in the query of the URL it was given.
\<close>

definition example_target :: url_URL where
  "example_target = zero_URL\<lparr>Scheme := ''https'', Host := ''search.example.com''\<rparr>"

definition example_creds :: Credentials where
  "example_creds = Credentials (Inr \<lparr>AccessKeyID = ''AKIDEXAMPLE'',
     SecretAccessKey = ''wJalrXUtnFEMI/K7MDENG/bPxRfiCYEXAMPLEKEY'', SessionToken = []\<rparr>)"

definition example_parse :: url_Parse where
  "example_parse s =
     (if s = ''https://search.example.com'' then Inr example_target
      else if s = ''/_search'' then Inr (zero_URL\<lparr>Path := s\<rparr>)
      else Inl (Err ''parse error''))"

definition example_Sign :: signer where
  "example_Sign t r =
     (case ReqError r of
        Some e \<Rightarrow> (r, Some e)
      | None \<Rightarrow>
          (case Get (Config_Credentials (Config r)) of
             Inl e \<Rightarrow> (r\<lparr>ReqError := Some e\<rparr>, Some e)
           | Inr v \<Rightarrow>
               (let u = URL (HTTPRequest r);
                    u' = u\<lparr>RawQuery :=
                           concat (map (\<lambda>c. if c = CHR ''+'' then ''%20'' else [c]) (RawQuery u))\<rparr>;
                    h = DAList.update ''Authorization''
                          [''AWS4-HMAC-SHA256 Credential='' @ AccessKeyID v]
                          (DAList.update ''X-Amz-Date'' [''20150830T123600Z'']
                             (Header (HTTPRequest r)))
                in (r\<lparr>HTTPRequest := (HTTPRequest r)\<lparr>URL := u', Header := h\<rparr>\<rparr>, None))))"

definition example_get :: http_Request where
  "example_get = \<lparr>Method = ''GET'',
     URL = zero_URL\<lparr>Path := ''/_search'', RawQuery := ''q=test''\<rparr>,
     Header = DAList.update ''Authorization'' [''Basic abc''] DAList.empty,
     Body = None, ReqHost = ''localhost:8080''\<rparr>"

definition example_post :: "error option \<Rightarrow> http_Request" where
  "example_post e = example_get\<lparr>Method := ''POST'', Body := Some (Reader [0x7B, 0x7D] e)\<rparr>"



section \<open>The merge loop\<close>

lemma lookup_merge_entries_notin:
  "k \<notin> fst ` set kvs \<Longrightarrow> DAList.lookup (merge_entries kvs h) k = DAList.lookup h k"
  by (induction kvs h rule: merge_entries.induct) (auto simp: DAList.lookup_update)

lemma lookup_merge_entries_in:
  "distinct (map fst kvs) \<Longrightarrow> (k, v) \<in> set kvs \<Longrightarrow> DAList.lookup (merge_entries kvs h) k = Some v"
proof (induction kvs h rule: merge_entries.induct)
  case (1 h)
  then show ?case by simp
next
  case (2 k' v' kvs h)
  show ?case
  proof (cases "k = k'")
    case True
    with 2(2) have "k \<notin> fst ` set kvs" by auto
    moreover from True 2(2,3) have "v = v'" by (auto simp: rev_image_eqI)
    ultimately show ?thesis using True
      by (simp add: lookup_merge_entries_notin)
  next
    case False
    with 2(2,3) have "distinct (map fst kvs)" "(k, v) \<in> set kvs" by auto
    then show ?thesis using 2(1) by simp
  qed
qed

lemma lookup_director_merge:
  "DAList.lookup (director_merge hs h) k =
     (case DAList.lookup hs k of None \<Rightarrow> DAList.lookup h k | Some v \<Rightarrow> Some v)"
proof (cases "DAList.lookup hs k")
  case None
  then have "map_of (DAList.impl_of hs) k = None"
    by (simp only: DAList.lookup.rep_eq)
  then have "k \<notin> fst ` set (DAList.impl_of hs)"
    by (simp only: map_of_eq_None_iff not_False_eq_True)
  then have "DAList.lookup (director_merge hs h) k = DAList.lookup h k"
    unfolding director_merge_def by (rule lookup_merge_entries_notin)
  with None show ?thesis by simp
next
  case (Some v)
  then have "map_of (DAList.impl_of hs) k = Some v"
    by (simp only: DAList.lookup.rep_eq)
  then have "(k, v) \<in> set (DAList.impl_of hs)"
    by (rule map_of_SomeD)
  then have "DAList.lookup (director_merge hs h) k = Some v"
    unfolding director_merge_def by (rule lookup_merge_entries_in [OF DAList.impl_of_distinct])
  with Some show ?thesis by simp
qed
section \<open>The director, step by step\<close>

lemma presign_None:
  "Body req = None \<Longrightarrow>
   director_presign parse target creds region tNew req =
     (director_rewrite target req,
      (director_awsReq parse creds region tNew (director_rewrite target req))
        \<lparr>HTTPRequest := (HTTPRequest (director_awsReq parse creds region tNew (director_rewrite target req)))
           \<lparr>URL := URL (director_rewrite target req)\<rparr>\<rparr>,
      [])"
  by (simp add: director_presign_def director_buffer_def director_rewrite_def Let_def)

lemma presign_Some:
  "Body req = Some b \<Longrightarrow>
   director_presign parse target creds region tNew req =
     ((director_rewrite target req)\<lparr>Body := Some (Reader (delivered b) None)\<rparr>,
      (director_awsReq parse creds region tNew (director_rewrite target req))
        \<lparr>SignBody := delivered b,
         HTTPRequest := (HTTPRequest (director_awsReq parse creds region tNew (director_rewrite target req)))
           \<lparr>URL := URL (director_rewrite target req)\<rparr>\<rparr>,
      (case ending b of None \<Rightarrow> []
       | Some e \<Rightarrow> [''error reading request body: '' @ Error e @ [CHR 0x0A]]))"
  by (simp add: director_presign_def director_buffer_def director_rewrite_def Let_def
      ReadAll_def NopCloser_def NewBuffer_def SetBufferBody_def)

lemma awsReq_SignBody [simp]: "SignBody (director_awsReq parse creds region tNew r) = []"
  by (simp add: director_awsReq_def New_def SetBufferBody_def Let_def)

lemma awsReq_Header [simp]: "Header (HTTPRequest (director_awsReq parse creds region tNew r)) = DAList.empty"
  by (simp add: director_awsReq_def New_def SetBufferBody_def Let_def)

lemma director_fst:
  "fst (director parse Sign target creds region tNew tSign req) =
     (request_at_sign parse target creds region tNew req)
       \<lparr>URL := URL (HTTPRequest (fst (Sign tSign (signing_request parse target creds region tNew req)))),
        Header := director_merge
          (Header (HTTPRequest (fst (Sign tSign (signing_request parse target creds region tNew req)))))
          (Header (request_at_sign parse target creds region tNew req))\<rparr>"
  by (simp add: director_def signing_request_def request_at_sign_def Let_def split: prod.splits)

lemma director_snd:
  "snd (director parse Sign target creds region tNew tSign req) =
     snd (snd (director_presign parse target creds region tNew req)) @
     (case snd (Sign tSign (signing_request parse target creds region tNew req)) of
        None \<Rightarrow> []
      | Some e \<Rightarrow> [''error signing: '' @ Error e @ [CHR 0x0A]])"
  by (simp add: director_def signing_request_def Let_def split: prod.splits)

lemma request_at_sign_eq:
  "request_at_sign parse target creds region tNew req =
     (director_rewrite target req)
       \<lparr>Body := map_option (\<lambda>b. Reader (delivered b) None) (Body req)\<rparr>"
proof (cases "Body req")
  case None
  then have "Body (director_rewrite target req) = None"
    by (simp add: director_rewrite_def)
  then have "(director_rewrite target req)\<lparr>Body := None\<rparr> = director_rewrite target req"
    by (cases "director_rewrite target req") simp
  with None show ?thesis
    by (simp add: request_at_sign_def presign_None)
next
  case (Some b)
  then show ?thesis
    by (simp add: request_at_sign_def presign_Some)
qed

lemma signing_request_eq:
  "signing_request parse target creds region tNew req =
     (director_awsReq parse creds region tNew (director_rewrite target req))
       \<lparr>SignBody := (case Body req of None \<Rightarrow> [] | Some b \<Rightarrow> delivered b),
        HTTPRequest := (HTTPRequest (director_awsReq parse creds region tNew (director_rewrite target req)))
          \<lparr>URL := URL (director_rewrite target req)\<rparr>\<rparr>"
proof (cases "Body req")
  case None
  let ?a = "director_awsReq parse creds region tNew (director_rewrite target req)"
  have "?a\<lparr>SignBody := []\<rparr> = ?a"
    by (cases ?a) (use awsReq_SignBody [of parse creds region tNew "director_rewrite target req"] in simp)
  with None show ?thesis
    by (simp add: signing_request_def presign_None)
next
  case (Some b)
  then show ?thesis
    by (simp add: signing_request_def presign_Some)
qed



section \<open>Body buffering\<close>

text \<open>
  Claim C1. For a request that carries a body delivering the bytes \<open>B\<close>, the payload
  of the signing request when \<open>Sign\<close> is called is \<open>B\<close>, and reading the body of
  the request the director returns gives \<open>B\<close> and then EOF: both are byte-identical
  to \<open>B\<close>.
\<close>

theorem body_buffering_preserves_bytes:
  assumes "Body req = Some body"
  shows "SignBody (signing_request parse target creds region tNew req) = delivered body
       \<and> map_option ReadAll (Body (fst (director parse Sign target creds region tNew tSign req)))
           = Some (delivered body, None)"
  using assms
  by (simp add: signing_request_eq director_fst request_at_sign_eq ReadAll_def)

theorem body_buffering_preserves_bytes_witness:
  "Body (example_post None) = Some (Reader [0x7B, 0x7D] None)
   \<and> SignBody (signing_request example_parse example_target example_creds ''us-east-1'' 0
         (example_post None)) = [0x7B, 0x7D]
   \<and> map_option ReadAll (Body (fst (director example_parse example_Sign example_target example_creds
         ''us-east-1'' 0 0 (example_post None)))) = Some ([0x7B, 0x7D], None)"
  using body_buffering_preserves_bytes [of "example_post None" "Reader [0x7B, 0x7D] None"
      example_parse example_target example_creds "''us-east-1''" 0 example_Sign 0]
  by (simp add: example_post_def)

text \<open>
  Claim C9. When the request has no body, the buffering step logs nothing, the signing
  request is the one \<open>request.New\<close> built with only its URL replaced (no payload is
  set on it), its payload is empty, and the body of the forwarded request is still nil.
\<close>

theorem nil_body_not_buffered:
  assumes "Body req = None"
  shows "snd (snd (director_presign parse target creds region tNew req)) = []
       \<and> signing_request parse target creds region tNew req
           = (director_awsReq parse creds region tNew (director_rewrite target req))
               \<lparr>HTTPRequest := (HTTPRequest (director_awsReq parse creds region tNew
                   (director_rewrite target req)))\<lparr>URL := URL (director_rewrite target req)\<rparr>\<rparr>
       \<and> SignBody (signing_request parse target creds region tNew req) = []
       \<and> Body (fst (director parse Sign target creds region tNew tSign req)) = None"
  using assms
  by (simp add: presign_None signing_request_def director_fst request_at_sign_eq)

theorem nil_body_not_buffered_witness:
  "Body example_get = None
   \<and> snd (snd (director_presign example_parse example_target example_creds ''us-east-1'' 0 example_get)) = []
   \<and> SignBody (signing_request example_parse example_target example_creds ''us-east-1'' 0 example_get) = []
   \<and> Body (fst (director example_parse example_Sign example_target example_creds ''us-east-1'' 0 0
        example_get)) = None"
  using nil_body_not_buffered [of example_get example_parse example_target example_creds
      "''us-east-1''" 0 example_Sign 0]
  by (simp add: example_get_def)

text \<open>
  Claim C7, as the code has it. When reading the body fails with error \<open>e\<close> after
  the bytes \<open>bs\<close> were delivered, the failure is logged (it is the first line of the
  director's log), and processing continues with \<open>bs\<close>: the payload of the signing
  request is \<open>bs\<close> and the forwarded body delivers \<open>bs\<close> and then EOF. The payload
  is empty only when \<open>bs\<close> is.
\<close>

theorem read_failure_keeps_partial_body:
  assumes "Body req = Some (Reader bs (Some e))"
  shows "snd (snd (director_presign parse target creds region tNew req))
           = [''error reading request body: '' @ Error e @ [CHR 0x0A]]
       \<and> SignBody (signing_request parse target creds region tNew req) = bs
       \<and> map_option ReadAll (Body (fst (director parse Sign target creds region tNew tSign req)))
           = Some (bs, None)
       \<and> take 1 (snd (director parse Sign target creds region tNew tSign req))
           = [''error reading request body: '' @ Error e @ [CHR 0x0A]]"
  using assms
  by (simp add: presign_Some signing_request_eq director_fst director_snd request_at_sign_eq
      ReadAll_def)

theorem read_failure_keeps_partial_body_witness:
  "Body (example_post (Some (Err ''unexpected EOF''))) = Some (Reader [0x7B, 0x7D] (Some (Err ''unexpected EOF'')))
   \<and> snd (snd (director_presign example_parse example_target example_creds ''us-east-1'' 0
        (example_post (Some (Err ''unexpected EOF'')))))
       = [''error reading request body: unexpected EOF'' @ [CHR 0x0A]]
   \<and> SignBody (signing_request example_parse example_target example_creds ''us-east-1'' 0
        (example_post (Some (Err ''unexpected EOF'')))) = [0x7B, 0x7D]"
  using read_failure_keeps_partial_body [of "example_post (Some (Err ''unexpected EOF''))"
      "[0x7B, 0x7D]" "Err ''unexpected EOF''"
      example_parse example_target example_creds "''us-east-1''" 0 example_Sign 0]
  by (simp add: example_post_def)

text \<open>
  The claim as the specification words it (an empty payload and an empty forwarded body
  after a read failure) fails for a body that delivers \<open>{}\<close> and then breaks off.
\<close>

theorem read_failure_empty_payload_counterexample:
  "\<not> (SignBody (signing_request example_parse example_target example_creds ''us-east-1'' 0
          (example_post (Some (Err ''unexpected EOF'')))) = []
      \<and> map_option ReadAll (Body (fst (director example_parse example_Sign example_target example_creds
          ''us-east-1'' 0 0 (example_post (Some (Err ''unexpected EOF'')))))) = Some ([], None))"
  by (simp add: signing_request_eq example_post_def)

section \<open>Header merge\<close>

text \<open>
  Claim C3. The merge overwrites: a key of the signed header set maps to exactly the
  signed value list afterwards, whatever the request had under that key, and every
  other key keeps its value. This holds for the merge loop on any two header maps and
  for the headers of the request the director returns, whose keys are distinct.
\<close>

theorem header_merge_overwrites:
  "DAList.lookup (director_merge hs h) k =
     (case DAList.lookup hs k of Some v \<Rightarrow> Some v | None \<Rightarrow> DAList.lookup h k)
   \<and> DAList.lookup (Header (fst (director parse Sign target creds region tNew tSign req))) k =
     (case DAList.lookup
             (Header (HTTPRequest (fst (Sign tSign (signing_request parse target creds region tNew req))))) k of
        Some v \<Rightarrow> Some v
      | None \<Rightarrow> DAList.lookup (Header req) k)
   \<and> distinct (map fst (DAList.impl_of (Header (fst (director parse Sign target creds region tNew tSign req)))))"
  by (simp add: lookup_director_merge director_fst request_at_sign_eq director_rewrite_def
      split: option.splits)

theorem header_merge_overwrites_witness:
  "DAList.lookup (Header (fst (director example_parse example_Sign example_target example_creds
       ''us-east-1'' 0 0 example_get))) ''Authorization''
     = Some [''AWS4-HMAC-SHA256 Credential=AKIDEXAMPLE'']
   \<and> DAList.lookup (Header example_get) ''Authorization'' = Some [''Basic abc'']"
  using header_merge_overwrites [of "Header (HTTPRequest (fst (example_Sign 0
      (signing_request example_parse example_target example_creds ''us-east-1'' 0 example_get))))"
      "Header example_get" "''Authorization''"
      example_parse example_Sign example_target example_creds "''us-east-1''" 0 0 example_get]
  by (simp add: signing_request_eq example_Sign_def example_get_def example_creds_def
      director_awsReq_def New_def SetBufferBody_def Let_def director_rewrite_def
      example_parse_def DAList.lookup_update)

section \<open>Order of rewriting and signing\<close>

text \<open>
  Claim C4. When \<open>Sign\<close> is called, the URL of the signing request is the request's
  URL with scheme and host replaced by the target's, the request itself carries the
  same URL and the target's host in its \<open>Host\<close> field, and what the director merges
  into the request and leaves as its URL is the result of \<open>Sign\<close> on that signing
  request.
\<close>

theorem rewrite_precedes_signing:
  "URL (HTTPRequest (signing_request parse target creds region tNew req))
     = (URL req)\<lparr>Scheme := Scheme target, Host := Host target\<rparr>
   \<and> Scheme (URL (HTTPRequest (signing_request parse target creds region tNew req))) = Scheme target
   \<and> Host (URL (HTTPRequest (signing_request parse target creds region tNew req))) = Host target
   \<and> URL (request_at_sign parse target creds region tNew req)
     = URL (HTTPRequest (signing_request parse target creds region tNew req))
   \<and> ReqHost (request_at_sign parse target creds region tNew req) = Host target
   \<and> Header (fst (director parse Sign target creds region tNew tSign req))
     = director_merge
         (Header (HTTPRequest (fst (Sign tSign (signing_request parse target creds region tNew req)))))
         (Header req)
   \<and> URL (fst (director parse Sign target creds region tNew tSign req))
     = URL (HTTPRequest (fst (Sign tSign (signing_request parse target creds region tNew req))))"
  by (simp add: signing_request_eq director_fst request_at_sign_eq director_rewrite_def)

section \<open>Determinism of the signing step\<close>



section \<open>Signing errors\<close>



section \<open>What the director changes\<close>

text \<open>
  Claim C10, as the code has it. The director never writes the method, and the URL it
  hands to \<open>Sign\<close> is the inbound one with only scheme and host replaced. But line 106
  makes the request and the signing request share one URL object, so the URL of the
  forwarded request is the one \<open>Sign\<close> leaves there: path and raw query are unchanged
  whenever \<open>Sign\<close> leaves them as it received them.
\<close>

theorem director_frame:
  "Method (fst (director parse Sign target creds region tNew tSign req)) = Method req
   \<and> URL (HTTPRequest (signing_request parse target creds region tNew req))
       = (URL req)\<lparr>Scheme := Scheme target, Host := Host target\<rparr>
   \<and> URL (fst (director parse Sign target creds region tNew tSign req))
       = URL (HTTPRequest (fst (Sign tSign (signing_request parse target creds region tNew req))))
   \<and> (Path (URL (HTTPRequest (fst (Sign tSign (signing_request parse target creds region tNew req)))))
         = Path (URL (HTTPRequest (signing_request parse target creds region tNew req)))
        \<longrightarrow> Path (URL (fst (director parse Sign target creds region tNew tSign req))) = Path (URL req))
   \<and> (RawQuery (URL (HTTPRequest (fst (Sign tSign (signing_request parse target creds region tNew req)))))
         = RawQuery (URL (HTTPRequest (signing_request parse target creds region tNew req)))
        \<longrightarrow> RawQuery (URL (fst (director parse Sign target creds region tNew tSign req)))
            = RawQuery (URL req))"
  by (simp add: director_fst request_at_sign_eq signing_request_eq director_rewrite_def)

lemma example_signing_request:
  "signing_request example_parse example_target example_creds ''us-east-1'' 0
     (example_get\<lparr>URL := (URL example_get)\<lparr>RawQuery := q\<rparr>\<rparr>)
   = \<lparr>Config = \<lparr>Config_Credentials = example_creds, Config_Region = ''us-east-1''\<rparr>,
      ClientInfo = \<lparr>ServiceName = ''es'', Endpoint = [], SigningName = [], SigningRegion = []\<rparr>,
      Operation = \<lparr>Name = [], HTTPMethod = ''GET'', HTTPPath = ''/_search''\<rparr>,
      HTTPRequest = \<lparr>Method = ''GET'',
        URL = zero_URL\<lparr>Scheme := ''https'', Host := ''search.example.com'', Path := ''/_search'',
                RawQuery := q\<rparr>,
        Header = DAList.empty, Body = None, ReqHost = []\<rparr>,
      SignBody = [], Time = 0, ExpireTime = 0, ReqError = None\<rparr>"
  by (simp add: signing_request_eq director_awsReq_def New_def SetBufferBody_def Let_def
      example_get_def example_parse_def director_rewrite_def example_target_def zero_URL_def)

lemma example_Sign_query:
  "RawQuery (URL (HTTPRequest (fst (example_Sign t
     (signing_request example_parse example_target example_creds ''us-east-1'' 0
        (example_get\<lparr>URL := (URL example_get)\<lparr>RawQuery := q\<rparr>\<rparr>))))))
   = concat (map (\<lambda>c. if c = CHR ''+'' then ''%20'' else [c]) q)"
  and example_Sign_path:
  "Path (URL (HTTPRequest (fst (example_Sign t
     (signing_request example_parse example_target example_creds ''us-east-1'' 0
        (example_get\<lparr>URL := (URL example_get)\<lparr>RawQuery := q\<rparr>\<rparr>))))))
   = ''/_search''"
  unfolding example_signing_request
  by (simp_all add: example_Sign_def example_creds_def Let_def)

theorem director_frame_witness:
  "Path (URL (fst (director example_parse example_Sign example_target example_creds ''us-east-1'' 0 0
       example_get))) = ''/_search''
   \<and> RawQuery (URL (fst (director example_parse example_Sign example_target example_creds
       ''us-east-1'' 0 0 example_get))) = ''q=test''
   \<and> Method (fst (director example_parse example_Sign example_target example_creds ''us-east-1'' 0 0
       example_get)) = ''GET''"
proof -
  have e: "example_get\<lparr>URL := (URL example_get)\<lparr>RawQuery := ''q=test''\<rparr>\<rparr> = example_get"
    by (simp add: example_get_def)
  have q: "RawQuery (URL (HTTPRequest (fst (example_Sign 0
      (signing_request example_parse example_target example_creds ''us-east-1'' 0 example_get)))))
      = ''q=test''"
    using example_Sign_query [of 0 "''q=test''"] by (simp add: e)
  have p: "Path (URL (HTTPRequest (fst (example_Sign 0
      (signing_request example_parse example_target example_creds ''us-east-1'' 0 example_get)))))
      = ''/_search''"
    using example_Sign_path [of 0 "''q=test''"] by (simp add: e)
  have g: "Path (URL example_get) = ''/_search''" "RawQuery (URL example_get) = ''q=test''"
    "Method example_get = ''GET''"
    by (simp_all add: example_get_def)
  have a: "Path (URL (HTTPRequest (signing_request example_parse example_target example_creds
      ''us-east-1'' 0 example_get))) = ''/_search''"
    "RawQuery (URL (HTTPRequest (signing_request example_parse example_target example_creds
      ''us-east-1'' 0 example_get))) = ''q=test''"
    using g by (simp_all add: signing_request_eq director_rewrite_def)
  show ?thesis
    using director_frame [of example_parse example_Sign example_target example_creds "''us-east-1''"
        0 0 example_get]
    by (simp add: q p g a)
qed

text \<open>
  With a signer that re-encodes the query of the URL it is given (the SDK's v4 signer
  assigns the canonical query string to \<open>Request.URL.RawQuery\<close>), the request
  \<open>GET /_search?q=a+b\<close> leaves the director with the raw query \<open>q=a%20b\<close>: the
  claim that the raw query is unchanged for every request fails.
\<close>

theorem director_rewrites_query_counterexample:
  "RawQuery (URL (fst (director example_parse example_Sign example_target example_creds ''us-east-1''
       0 0 (example_get\<lparr>URL := (URL example_get)\<lparr>RawQuery := ''q=a+b''\<rparr>\<rparr>))))
   \<noteq> RawQuery (URL (example_get\<lparr>URL := (URL example_get)\<lparr>RawQuery := ''q=a+b''\<rparr>\<rparr>))"
  by (simp add: director_fst example_Sign_query)

section \<open>Start-up\<close>




end
